theory Spec2Isabelle
  imports Main "HOL-Library.Multiset" "HOL-Library.AList"
begin

section \<open>Data model\<close>

text \<open>
  A Go slice value is either the nil slice or a non-nil slice holding a (possibly empty)
  sequence of elements. \<open>range\<close> and \<open>len\<close> see only the elements; the difference
  between nil and an empty non-nil slice is visible to the caller through \<open>== nil\<close>.
\<close>

datatype 'a slice = NilSlice | Slice "'a list"

fun elems :: "'a slice \<Rightarrow> 'a list" where
  "elems NilSlice = []"
| "elems (Slice xs) = xs"

definition len :: "'a slice \<Rightarrow> nat" where
  "len s = length (elems s)"

text \<open>
  The builtin \<open>append(s, v...)\<close>: appending nothing to the nil slice leaves it nil,
  appending at least one element allocates, and a non-nil slice stays non-nil.
\<close>

fun append_slice :: "'a slice \<Rightarrow> 'a list \<Rightarrow> 'a slice" where
  "append_slice NilSlice [] = NilSlice"
| "append_slice NilSlice (v # vs) = Slice (v # vs)"
| "append_slice (Slice xs) vs = Slice (xs @ vs)"

text \<open>
  A Go map value is either the nil map or an allocated map. The entries are kept as an
  association list; its order stands for the order in which \<open>range\<close> visits the
  entries, which Go leaves unspecified.
\<close>

datatype ('k, 'v) gomap = NilMap | GoMap "('k \<times> 'v) list"

fun entries :: "('k, 'v) gomap \<Rightarrow> ('k \<times> 'v) list" where
  "entries NilMap = []"
| "entries (GoMap es) = es"

text \<open>
  The assignment \<open>m[key] = value\<close>: it overwrites the entry of an existing key, adds
  one otherwise, and panics on the nil map (the result \<open>None\<close>).
\<close>

fun map_assign :: "('k, 'v) gomap \<Rightarrow> 'k \<Rightarrow> 'v \<Rightarrow> ('k, 'v) gomap option" where
  "map_assign NilMap key v = None"
| "map_assign (GoMap es) key v = Some (GoMap (AList.update key v es))"

text \<open>
  The index expression \<open>seen[item]\<close> on a \<open>map[T]bool\<close>: a missing key reads as the
  zero value \<open>false\<close>.
\<close>

definition map_index :: "('a \<rightharpoonup> bool) \<Rightarrow> 'a \<Rightarrow> bool" where
  "map_index seen item = (case seen item of None \<Rightarrow> False | Some b \<Rightarrow> b)"

text \<open>
  \<open>make([]T, n)\<close> allocates a non-nil slice of \<open>n\<close> zero values. Go takes the zero
  value from the type; here it is a parameter. \<open>copy(dst, src)\<close> overwrites the first
  \<open>min(len(dst), len(src))\<close> elements of \<open>dst\<close>; the model returns \<open>dst\<close> afterwards.
\<close>

definition make_slice :: "'a \<Rightarrow> nat \<Rightarrow> 'a slice" where
  "make_slice zero_value n = Slice (replicate n zero_value)"

fun copy_slice :: "'a slice \<Rightarrow> 'a slice \<Rightarrow> 'a slice" where
  "copy_slice NilSlice src = NilSlice"
| "copy_slice (Slice ds) src =
     Slice (take (length ds) (elems src) @ drop (length (elems src)) ds)"

text \<open>
  A Go \<open>error\<close> is \<open>nil\<close> (here \<open>None\<close>) or a value with an \<open>Error()\<close> method. The
  values are those of \<open>github.com/pkg/errors\<close>: an error made from a message, and an
  error wrapping a cause with a message, whose \<open>Error()\<close> is the message, a colon and
  a space, and the cause's \<open>Error()\<close>. \<open>Wrap\<close> of a nil error is nil.
\<close>

datatype error = Fundamental string | WithMessage error string

fun Error :: "error \<Rightarrow> string" where
  "Error (Fundamental msg) = msg"
| "Error (WithMessage cause msg) = msg @ '': '' @ Error cause"

fun Wrap :: "error option \<Rightarrow> string \<Rightarrow> error option" where
  "Wrap None message = None"
| "Wrap (Some err) message = Some (WithMessage err message)"

text \<open>
  \<open>fmt.Sprintf\<close> with the verb \<open>%v\<close> prints a non-negative \<open>int\<close> in decimal.
  \<open>Sprintf_index idx\<close> is
  \<open>fmt.Sprintf("error mapping at index:'%v', error", idx)\<close>.
\<close>

definition digit :: "nat \<Rightarrow> char" where
  \<comment> \<open>the character of a decimal digit; only called with \<open>d < 10\<close>\<close>
  "digit d = ''0123456789'' ! d"

fun decimal :: "nat \<Rightarrow> string" where
  "decimal n = (if n < 10 then [digit n] else decimal (n div 10) @ [digit (n mod 10)])"

definition Sprintf_index :: "nat \<Rightarrow> string" where
  "Sprintf_index idx =
     ''error mapping at index:'' @ [CHR 0x27] @ decimal idx @ [CHR 0x27] @ '', error''"

text \<open>
  A Go function value may be a closure that reads and writes variables outside itself
  (a counter, a log, an output stream). Where a property is about which calls are made,
  the callback is modelled with the state \<open>'s\<close> it works on: it takes the state before
  the call and returns its result with the state after. \<open>invoke_all\<close> is the yardstick
  such properties are stated against: the outcomes, and the final state, of calling the
  callback on every element in order, with no early exit.
\<close>

fun invoke_all :: "('a \<Rightarrow> 's \<Rightarrow> 'r \<times> 's) \<Rightarrow> 'a list \<Rightarrow> 's \<Rightarrow> 'r list \<times> 's" where
  "invoke_all f [] s = ([], s)"
| "invoke_all f (x # xs) s =
     (case f x s of (r, s') \<Rightarrow>
        (case invoke_all f xs s' of (rs, s'') \<Rightarrow> (r # rs, s'')))"

section \<open>Sequence transforms\<close>

text \<open>
  \<open>Map\<close>: \<open>result := []T2{}\<close>, then one \<open>append\<close> per element of \<open>source\<close>.
  The loop function carries the remaining elements and the local \<open>result\<close>.
\<close>

fun Map_loop :: "('a \<Rightarrow> 'b) \<Rightarrow> 'a list \<Rightarrow> 'b slice \<Rightarrow> 'b slice" where
  "Map_loop transform [] result = result"
| "Map_loop transform (item # rest) result =
     Map_loop transform rest (append_slice result [transform item])"

definition Map :: "'a slice \<Rightarrow> ('a \<Rightarrow> 'b) \<Rightarrow> 'b slice" where
  "Map source transform = Map_loop transform (elems source) (Slice [])"

text \<open>\<open>Filter\<close>: \<open>result := []T{}\<close>, appending the items for which \<open>filterFunc\<close> holds.\<close>

fun Filter_loop :: "('a \<Rightarrow> bool) \<Rightarrow> 'a list \<Rightarrow> 'a slice \<Rightarrow> 'a slice" where
  "Filter_loop filterFunc [] result = result"
| "Filter_loop filterFunc (item # rest) result =
     (if filterFunc item then Filter_loop filterFunc rest (append_slice result [item])
      else Filter_loop filterFunc rest result)"

definition Filter :: "'a slice \<Rightarrow> ('a \<Rightarrow> bool) \<Rightarrow> 'a slice" where
  "Filter source filterFunc = Filter_loop filterFunc (elems source) (Slice [])"

text \<open>\<open>FlatMap\<close>: \<open>result := []T1{}\<close>, then \<open>append(result, item...)\<close> per inner slice.\<close>

fun FlatMap_loop :: "'a slice list \<Rightarrow> 'a slice \<Rightarrow> 'a slice" where
  "FlatMap_loop [] result = result"
| "FlatMap_loop (item # rest) result = FlatMap_loop rest (append_slice result (elems item))"

definition FlatMap :: "'a slice slice \<Rightarrow> 'a slice" where
  "FlatMap source = FlatMap_loop (elems source) (Slice [])"

text \<open>
  \<open>ForEachWithError\<close>: the action is called on each item in turn; the first non-nil
  error is returned at once, and \<open>nil\<close> after the last item.
\<close>

fun ForEachWithError_loop ::
  "('a \<Rightarrow> 's \<Rightarrow> error option \<times> 's) \<Rightarrow> 'a list \<Rightarrow> 's \<Rightarrow> error option \<times> 's" where
  "ForEachWithError_loop action [] s = (None, s)"
| "ForEachWithError_loop action (item # rest) s =
     (case action item s of (err, s') \<Rightarrow>
        if err \<noteq> None then (err, s')
        else ForEachWithError_loop action rest s')"

definition ForEachWithError ::
  "'a slice \<Rightarrow> ('a \<Rightarrow> 's \<Rightarrow> error option \<times> 's) \<Rightarrow> 's \<Rightarrow> error option \<times> 's" where
  "ForEachWithError source action s = ForEachWithError_loop action (elems source) s"

text \<open>
  \<open>MapReturnWithError\<close>: \<open>result := []T2{}\<close>; for each index and item the mapping
  function is called; a non-nil error returns \<open>nil\<close> and the wrapped error at once,
  otherwise the value is appended. After the last item the result is returned with a
  nil error.
\<close>

fun MapReturnWithError_loop ::
  "('a \<Rightarrow> 's \<Rightarrow> ('b \<times> error option) \<times> 's) \<Rightarrow> nat \<Rightarrow> 'a list \<Rightarrow> 'b slice \<Rightarrow> 's
     \<Rightarrow> ('b slice \<times> error option) \<times> 's" where
  "MapReturnWithError_loop mappingFunc idx [] result s = ((result, None), s)"
| "MapReturnWithError_loop mappingFunc idx (item # rest) result s =
     (case mappingFunc item s of ((res, err), s') \<Rightarrow>
        if err \<noteq> None then ((NilSlice, Wrap err (Sprintf_index idx)), s')
        else MapReturnWithError_loop mappingFunc (idx + 1) rest (append_slice result [res]) s')"

definition MapReturnWithError ::
  "'a slice \<Rightarrow> ('a \<Rightarrow> 's \<Rightarrow> ('b \<times> error option) \<times> 's) \<Rightarrow> 's
     \<Rightarrow> ('b slice \<times> error option) \<times> 's" where
  "MapReturnWithError source mappingFunc s =
     MapReturnWithError_loop mappingFunc 0 (elems source) (Slice []) s"

section \<open>Mapping utilities\<close>

text \<open>
  \<open>FilterMap\<close>: \<open>result := make(map[K]V)\<close>, then \<open>result[key] = value\<close> for the
  entries the filtering function accepts.
\<close>

fun FilterMap_loop ::
  "('k \<Rightarrow> 'v \<Rightarrow> bool) \<Rightarrow> ('k \<times> 'v) list \<Rightarrow> ('k, 'v) gomap \<Rightarrow> ('k, 'v) gomap option" where
  "FilterMap_loop filteringFunc [] result = Some result"
| "FilterMap_loop filteringFunc ((key, v) # rest) result =
     (if filteringFunc key v then
        (case map_assign result key v of
           None \<Rightarrow> None
         | Some result' \<Rightarrow> FilterMap_loop filteringFunc rest result')
      else FilterMap_loop filteringFunc rest result)"

definition FilterMap ::
  "('k, 'v) gomap \<Rightarrow> ('k \<Rightarrow> 'v \<Rightarrow> bool) \<Rightarrow> ('k, 'v) gomap option" where
  "FilterMap source filteringFunc = FilterMap_loop filteringFunc (entries source) (GoMap [])"

text \<open>\<open>CloneMap\<close>: \<open>clone := make(map[K]V, len(source))\<close>, then every entry is stored.\<close>

fun CloneMap_loop :: "('k \<times> 'v) list \<Rightarrow> ('k, 'v) gomap \<Rightarrow> ('k, 'v) gomap option" where
  "CloneMap_loop [] clone = Some clone"
| "CloneMap_loop ((key, v) # rest) clone =
     (case map_assign clone key v of
        None \<Rightarrow> None
      | Some clone' \<Rightarrow> CloneMap_loop rest clone')"

definition CloneMap :: "('k, 'v) gomap \<Rightarrow> ('k, 'v) gomap option" where
  "CloneMap source = CloneMap_loop (entries source) (GoMap [])"

text \<open>\<open>CloneList\<close>: \<open>clone := make([]T, len(source))\<close>, then \<open>copy(clone, source)\<close>.\<close>

definition CloneList :: "'a \<Rightarrow> 'a slice \<Rightarrow> 'a slice" where
  "CloneList zero_value source =
     (let clone = make_slice zero_value (len source) in copy_slice clone source)"

section \<open>Ordering and selection\<close>

text \<open>
  \<open>Count\<close>: \<open>count := 0\<close>, incremented for each element satisfying the predicate.
  The counter is a Go \<open>int\<close>; it never exceeds the length of the slice, which itself
  fits an \<open>int\<close>, so the increment cannot wrap and the counter is modelled as \<open>int\<close>
  (the local \<open>count\<close> is written \<open>cnt\<close> here).
\<close>

fun Count_loop :: "('a \<Rightarrow> bool) \<Rightarrow> 'a list \<Rightarrow> int \<Rightarrow> int" where
  "Count_loop predicate [] cnt = cnt"
| "Count_loop predicate (v # rest) cnt =
     (if predicate v then Count_loop predicate rest (cnt + 1)
      else Count_loop predicate rest cnt)"

definition Count :: "'a slice \<Rightarrow> ('a \<Rightarrow> bool) \<Rightarrow> int" where
  "Count slice predicate = Count_loop predicate (elems slice) 0"

text \<open>
  \<open>Distinct\<close>: \<open>seen := make(map[T]bool)\<close>, \<open>unique := []T{}\<close>; an item not yet
  seen is marked and appended.
\<close>

fun Distinct_loop :: "'a list \<Rightarrow> ('a \<rightharpoonup> bool) \<Rightarrow> 'a slice \<Rightarrow> 'a slice" where
  "Distinct_loop [] seen unique = unique"
| "Distinct_loop (item # rest) seen unique =
     (if \<not> map_index seen item
      then Distinct_loop rest (seen(item \<mapsto> True)) (append_slice unique [item])
      else Distinct_loop rest seen unique)"

definition Distinct :: "'a slice \<Rightarrow> 'a slice" where
  "Distinct slice = Distinct_loop (elems slice) Map.empty (Slice [])"

text \<open>\<open>DistinctFunc\<close>: the same body; \<open>compareFunc\<close> is a parameter the body never calls.\<close>

fun DistinctFunc_loop ::
  "('a \<Rightarrow> 'a \<Rightarrow> bool) \<Rightarrow> 'a list \<Rightarrow> ('a \<rightharpoonup> bool) \<Rightarrow> 'a slice \<Rightarrow> 'a slice" where
  "DistinctFunc_loop compareFunc [] seen unique = unique"
| "DistinctFunc_loop compareFunc (item # rest) seen unique =
     (if \<not> map_index seen item
      then DistinctFunc_loop compareFunc rest (seen(item \<mapsto> True)) (append_slice unique [item])
      else DistinctFunc_loop compareFunc rest seen unique)"

definition DistinctFunc :: "'a slice \<Rightarrow> ('a \<Rightarrow> 'a \<Rightarrow> bool) \<Rightarrow> 'a slice" where
  "DistinctFunc slice compareFunc = DistinctFunc_loop compareFunc (elems slice) Map.empty (Slice [])"

text \<open>
  The yardstick for first-seen order: the first occurrence of every element is kept,
  the later ones are dropped.
\<close>

fun first_seen :: "'a list \<Rightarrow> 'a list" where
  "first_seen [] = []"
| "first_seen (x # xs) = x # filter (\<lambda>y. y \<noteq> x) (first_seen xs)"









text \<open>
  \<open>Partition\<close>: \<open>trueSlice := []T{}\<close>, \<open>falseSlice := []T{}\<close>; every element is
  appended to one of them.
\<close>

fun Partition_loop ::
  "('a \<Rightarrow> bool) \<Rightarrow> 'a list \<Rightarrow> 'a slice \<Rightarrow> 'a slice \<Rightarrow> 'a slice \<times> 'a slice" where
  "Partition_loop predicate [] trueSlice falseSlice = (trueSlice, falseSlice)"
| "Partition_loop predicate (v # rest) trueSlice falseSlice =
     (if predicate v then Partition_loop predicate rest (append_slice trueSlice [v]) falseSlice
      else Partition_loop predicate rest trueSlice (append_slice falseSlice [v]))"

definition Partition :: "'a slice \<Rightarrow> ('a \<Rightarrow> bool) \<Rightarrow> 'a slice \<times> 'a slice" where
  "Partition slice predicate = Partition_loop predicate (elems slice) (Slice []) (Slice [])"

section \<open>Function composition\<close>

definition Compose :: "('b \<Rightarrow> 'c) \<Rightarrow> ('a \<Rightarrow> 'b) \<Rightarrow> 'a \<Rightarrow> 'c" where
  "Compose f g = (\<lambda>x. f (g x))"

definition Pipe :: "('a \<Rightarrow> 'b) \<Rightarrow> ('b \<Rightarrow> 'c) \<Rightarrow> 'a \<Rightarrow> 'c" where
  "Pipe g f = (\<lambda>x. f (g x))"

section \<open>Callbacks of the test suite\<close>

text \<open>
  The mapping function of \<open>TestMapReturnWithError\<close>: it fails on \<open>3\<close> with
  \<open>errors.New("fake error for 3")\<close> and doubles every other input. The state is a
  record of the inputs it was called with, so that the calls made are visible.
\<close>

definition fail_on_3 :: "int \<Rightarrow> int list \<Rightarrow> (int \<times> error option) \<times> int list" where
  "fail_on_3 data calls =
     (if data = 3 then ((0, Some (Fundamental ''fake error for 3'')), calls @ [data])
      else ((data * 2, None), calls @ [data]))"

text \<open>
  The action of \<open>TestForEachWithError\<close>: it fails on \<open>3\<close> with \<open>errors.New("error")\<close>
  and prints every other item; the state is what has been printed.
\<close>

definition error_on_3 :: "int \<Rightarrow> int list \<Rightarrow> error option \<times> int list" where
  "error_on_3 item printed =
     (if item = 3 then (Some (Fundamental ''error''), printed) else (None, printed @ [item]))"

section \<open>Loop lemmas\<close>

lemma invoke_all_Cons_elim:
  assumes "invoke_all f (x # xs) s = (outs, s1)"
  obtains r s' rs where "f x s = (r, s')" "invoke_all f xs s' = (rs, s1)" "outs = r # rs"
  using assms by (auto split: prod.splits)

lemma ForEachWithError_loop_success:
  "invoke_all action xs s = (outs, s1) \<Longrightarrow> \<forall>out \<in> set outs. out = None
   \<Longrightarrow> ForEachWithError_loop action xs s = (None, s1)"
proof (induction xs arbitrary: s outs)
  case Nil
  then show ?case by simp
next
  case (Cons x xs)
  from Cons.prems(1) obtain r s' rs where
    fx: "action x s = (r, s')" and rest: "invoke_all action xs s' = (rs, s1)" and outs: "outs = r # rs"
    by (rule invoke_all_Cons_elim)
  from Cons.prems(2) outs have r: "r = None" and rs: "\<forall>out \<in> set rs. out = None"
    by simp_all
  have "ForEachWithError_loop action (x # xs) s = ForEachWithError_loop action xs s'"
    using fx r by simp
  then show ?case using Cons.IH [OF rest rs] by simp
qed

lemma ForEachWithError_loop_failure:
  "invoke_all action pre s = (outs, s1) \<Longrightarrow> \<forall>out \<in> set outs. out = None
   \<Longrightarrow> action item s1 = (Some e, s2)
   \<Longrightarrow> ForEachWithError_loop action (pre @ item # post) s = (Some e, s2)"
proof (induction pre arbitrary: s outs)
  case Nil
  then show ?case by simp
next
  case (Cons x xs)
  from Cons.prems(1) obtain r s' rs where
    fx: "action x s = (r, s')" and rest: "invoke_all action xs s' = (rs, s1)" and outs: "outs = r # rs"
    by (rule invoke_all_Cons_elim)
  from Cons.prems(2) outs have r: "r = None" and rs: "\<forall>out \<in> set rs. out = None"
    by simp_all
  have "ForEachWithError_loop action ((x # xs) @ item # post) s =
        ForEachWithError_loop action (xs @ item # post) s'"
    using fx r by simp
  then show ?case using Cons.IH [OF rest rs Cons.prems(3)] by simp
qed

lemma MapReturnWithError_loop_success:
  "invoke_all f xs s = (outs, s1) \<Longrightarrow> \<forall>out \<in> set outs. snd out = None
   \<Longrightarrow> MapReturnWithError_loop f idx xs (Slice acc) s = ((Slice (acc @ map fst outs), None), s1)"
proof (induction xs arbitrary: idx acc s outs)
  case Nil
  then show ?case by simp
next
  case (Cons x xs)
  from Cons.prems(1) obtain r s' rs where
    fx: "f x s = (r, s')" and rest: "invoke_all f xs s' = (rs, s1)" and outs: "outs = r # rs"
    by (rule invoke_all_Cons_elim)
  from Cons.prems(2) outs have r: "snd r = None" and rs: "\<forall>out \<in> set rs. snd out = None"
    by simp_all
  obtain res where res: "r = (res, None)" using r by (cases r) simp
  have "MapReturnWithError_loop f idx (x # xs) (Slice acc) s =
        MapReturnWithError_loop f (idx + 1) xs (Slice (acc @ [res])) s'"
    using fx res by simp
  also have "\<dots> = ((Slice ((acc @ [res]) @ map fst rs), None), s1)"
    by (rule Cons.IH [OF rest rs])
  finally show ?case using outs res by simp
qed

lemma MapReturnWithError_loop_failure:
  "invoke_all f pre s = (outs, s1) \<Longrightarrow> \<forall>out \<in> set outs. snd out = None
   \<Longrightarrow> f item s1 = ((res, Some cause), s2)
   \<Longrightarrow> MapReturnWithError_loop f idx (pre @ item # post) (Slice acc) s =
       ((NilSlice, Some (WithMessage cause (Sprintf_index (idx + length pre)))), s2)"
proof (induction pre arbitrary: idx acc s outs)
  case Nil
  then show ?case by simp
next
  case (Cons x xs)
  from Cons.prems(1) obtain r s' rs where
    fx: "f x s = (r, s')" and rest: "invoke_all f xs s' = (rs, s1)" and outs: "outs = r # rs"
    by (rule invoke_all_Cons_elim)
  from Cons.prems(2) outs have r: "snd r = None" and rs: "\<forall>out \<in> set rs. snd out = None"
    by simp_all
  obtain v where v: "r = (v, None)" using r by (cases r) simp
  have "MapReturnWithError_loop f idx ((x # xs) @ item # post) (Slice acc) s =
        MapReturnWithError_loop f (idx + 1) (xs @ item # post) (Slice (acc @ [v])) s'"
    using fx v by simp
  also have "\<dots> = ((NilSlice, Some (WithMessage cause (Sprintf_index ((idx + 1) + length xs)))), s2)"
    by (rule Cons.IH [OF rest rs Cons.prems(3)])
  finally show ?case by simp
qed

lemma Error_wrapped:
  "Error (WithMessage cause (Sprintf_index i)) =
     ''error mapping at index:'' @ [CHR 0x27] @ decimal i @ [CHR 0x27] @ '', error: '' @ Error cause"
  by (simp add: Sprintf_index_def)

lemma DistinctFunc_loop_eq:
  "DistinctFunc_loop compareFunc xs seen unique = Distinct_loop xs seen unique"
  by (induction xs arbitrary: seen unique) simp_all

lemma set_first_seen: "set (first_seen xs) = set xs"
  by (induction xs) auto

lemma filter_first_seen: "filter P (first_seen xs) = first_seen (filter P xs)"
proof (induction xs)
  case Nil
  then show ?case by simp
next
  case (Cons x xs)
  have "filter P (filter (\<lambda>y. y \<noteq> x) (first_seen xs)) =
        filter (\<lambda>y. y \<noteq> x) (filter P (first_seen xs))"
    by (simp add: conj_commute)
  then have comm: "filter P (filter (\<lambda>y. y \<noteq> x) (first_seen xs)) =
              filter (\<lambda>y. y \<noteq> x) (first_seen (filter P xs))"
    by (simp only: Cons.IH)
  show ?case
  proof (cases "P x")
    case True
    then show ?thesis using comm by simp
  next
    case False
    then have "x \<notin> set (first_seen (filter P xs))"
      by (simp add: set_first_seen)
    then have "filter (\<lambda>y. y \<noteq> x) (first_seen (filter P xs)) = first_seen (filter P xs)"
      by (auto simp: filter_id_conv)
    then show ?thesis using False comm by simp
  qed
qed

lemma Distinct_loop_first_seen:
  "\<forall>x. map_index seen x = (x \<in> set acc)
   \<Longrightarrow> Distinct_loop xs seen (Slice acc) = Slice (acc @ first_seen (filter (\<lambda>y. y \<notin> set acc) xs))"
proof (induction xs arbitrary: seen acc)
  case Nil
  then show ?case by simp
next
  case (Cons x xs)
  show ?case
  proof (cases "x \<in> set acc")
    case True
    then have "map_index seen x" using Cons.prems by simp
    then show ?thesis using True Cons.IH [OF Cons.prems] by simp
  next
    case False
    then have nseen: "\<not> map_index seen x" using Cons.prems by simp
    have inv: "\<forall>y. map_index (seen(x \<mapsto> True)) y = (y \<in> set (acc @ [x]))"
      using Cons.prems by (auto simp: map_index_def)
    have step: "Distinct_loop (x # xs) seen (Slice acc) =
                Distinct_loop xs (seen(x \<mapsto> True)) (Slice (acc @ [x]))"
      using nseen by simp
    have rest: "Distinct_loop xs (seen(x \<mapsto> True)) (Slice (acc @ [x])) =
                Slice ((acc @ [x]) @ first_seen (filter (\<lambda>y. y \<notin> set (acc @ [x])) xs))"
      by (rule Cons.IH [OF inv])
    have "first_seen (filter (\<lambda>y. y \<notin> set acc) (x # xs)) =
          x # filter (\<lambda>y. y \<noteq> x) (first_seen (filter (\<lambda>y. y \<notin> set acc) xs))"
      using False by simp
    also have "\<dots> = x # first_seen (filter (\<lambda>y. y \<notin> set (acc @ [x])) xs)"
      by (simp add: filter_first_seen conj_commute)
    finally have "first_seen (filter (\<lambda>y. y \<notin> set acc) (x # xs)) =
                  x # first_seen (filter (\<lambda>y. y \<notin> set (acc @ [x])) xs)" .
    then show ?thesis unfolding step rest by simp
  qed
qed

lemma Partition_loop_Slice:
  "Partition_loop p xs (Slice ts) (Slice fs) =
     (Slice (ts @ filter p xs), Slice (fs @ filter (\<lambda>x. \<not> p x) xs))"
  by (induction xs arbitrary: ts fs) simp_all

lemma Map_loop_Slice:
  "Map_loop transform xs (Slice acc) = Slice (acc @ map transform xs)"
  by (induction xs arbitrary: acc) simp_all

lemma Map_elems: "Map source transform = Slice (map transform (elems source))"
  by (simp add: Map_def Map_loop_Slice)

lemma Filter_loop_Slice:
  "Filter_loop p xs (Slice acc) = Slice (acc @ filter p xs)"
  by (induction xs arbitrary: acc) simp_all

lemma Filter_elems: "Filter source p = Slice (filter p (elems source))"
  by (simp add: Filter_def Filter_loop_Slice)

lemma Count_loop_length:
  "Count_loop p xs c = c + int (length (filter p xs))"
  by (induction xs arbitrary: c) simp_all





section \<open>Verified properties\<close>

text \<open>
  C1. For every source sequence and fallible per-element transform: when the transform
  fails on some element, \<open>MapReturnWithError\<close> returns the nil slice (not a partial
  result) together with an error whose message is exactly
  \<open>error mapping at index:'<i>', error: <cause>\<close>, where \<open>i\<close> is the zero-based index
  of the first failing element and \<open>cause\<close> that element's own error message; the
  elements after it are not transformed (the state is the one the failing call left).
  When no element fails it returns the complete transformed sequence and no error.
\<close>

theorem MapReturnWithError_first_failure:
  "(elems source = pre @ item # post \<and> invoke_all mappingFunc pre s = (outs, s1)
      \<and> (\<forall>out \<in> set outs. snd out = None) \<and> mappingFunc item s1 = ((res, Some cause), s2)
    \<longrightarrow> (\<exists>err. MapReturnWithError source mappingFunc s = ((NilSlice, Some err), s2)
          \<and> Error err = ''error mapping at index:'' @ [CHR 0x27] @ decimal (length pre)
                           @ [CHR 0x27] @ '', error: '' @ Error cause))
   \<and> (invoke_all mappingFunc (elems source) s = (outs, s1) \<and> (\<forall>out \<in> set outs. snd out = None)
    \<longrightarrow> MapReturnWithError source mappingFunc s = ((Slice (map fst outs), None), s1))"
proof (intro conjI impI)
  assume h: "elems source = pre @ item # post \<and> invoke_all mappingFunc pre s = (outs, s1)
      \<and> (\<forall>out \<in> set outs. snd out = None) \<and> mappingFunc item s1 = ((res, Some cause), s2)"
  then have "MapReturnWithError source mappingFunc s =
     ((NilSlice, Some (WithMessage cause (Sprintf_index (0 + length pre)))), s2)"
    unfolding MapReturnWithError_def
    using MapReturnWithError_loop_failure [of mappingFunc pre s outs s1 item res cause s2 0 post "[]"]
    by simp
  then show "\<exists>err. MapReturnWithError source mappingFunc s = ((NilSlice, Some err), s2)
          \<and> Error err = ''error mapping at index:'' @ [CHR 0x27] @ decimal (length pre)
                           @ [CHR 0x27] @ '', error: '' @ Error cause"
    using Error_wrapped [of cause "length pre"] by simp
next
  assume "invoke_all mappingFunc (elems source) s = (outs, s1) \<and> (\<forall>out \<in> set outs. snd out = None)"
  then show "MapReturnWithError source mappingFunc s = ((Slice (map fst outs), None), s1)"
    unfolding MapReturnWithError_def
    using MapReturnWithError_loop_success [of mappingFunc "elems source" s outs s1 0 "[]"]
    by simp
qed

theorem MapReturnWithError_first_failure_witness:
  "(\<exists>err. MapReturnWithError (Slice [1, 2, 3, 4, 5]) fail_on_3 [] = ((NilSlice, Some err), [1, 2, 3])
        \<and> Error err = ''error mapping at index:'2', error: fake error for 3'')
   \<and> MapReturnWithError (Slice [1, 2, 4, 5]) fail_on_3 [] = ((Slice [2, 4, 8, 10], None), [1, 2, 4, 5])"
  using MapReturnWithError_first_failure [of "Slice [1, 2, 3, 4, 5]" "[1, 2]" 3 "[4, 5]" fail_on_3 "[]"
          "[(2, None), (4, None)]" "[1, 2]" 0 "Fundamental ''fake error for 3''" "[1, 2, 3]"]
        MapReturnWithError_first_failure [of "Slice [1, 2, 4, 5]" "[]" 0 "[]" fail_on_3 "[]"
          "[(2, None), (4, None), (8, None), (10, None)]" "[1, 2, 4, 5]" 0 "Fundamental ''''" "[]"]
  by (simp add: fail_on_3_def digit_def)

text \<open>
  C2. For every slice of comparable elements and every supplied equality function,
  \<open>DistinctFunc(slice, compareFunc)\<close> returns exactly what \<open>Distinct(slice)\<close> returns:
  the supplied function is ignored, and the result keeps the unique elements, by the
  element type's own equality, in first-seen order.
\<close>

theorem DistinctFunc_is_Distinct:
  "DistinctFunc slice compareFunc = Distinct slice
   \<and> Distinct slice = Slice (first_seen (elems slice))"
proof -
  have "\<forall>x. map_index Map.empty x = (x \<in> set [])"
    by (simp add: map_index_def)
  then have "Distinct_loop (elems slice) Map.empty (Slice []) =
             Slice ([] @ first_seen (filter (\<lambda>y. y \<notin> set []) (elems slice)))"
    by (rule Distinct_loop_first_seen)
  then show ?thesis
    by (simp add: DistinctFunc_def Distinct_def DistinctFunc_loop_eq)
qed



text \<open>
  C4. For every slice and predicate, \<open>Partition\<close> returns the elements satisfying the
  predicate and the elements not satisfying it, each in their original relative order;
  together they hold exactly the elements of the input, each exactly once, and both
  results are non-nil (possibly empty) slices.
\<close>

theorem Partition_splits:
  "Partition slice p = (Slice (filter p (elems slice)), Slice (filter (\<lambda>x. \<not> p x) (elems slice)))
   \<and> fst (Partition slice p) \<noteq> NilSlice \<and> snd (Partition slice p) \<noteq> NilSlice
   \<and> mset (elems (fst (Partition slice p))) + mset (elems (snd (Partition slice p)))
       = mset (elems slice)"
  by (simp add: Partition_def Partition_loop_Slice)

text \<open>
  C5. For every sequence \<open>s\<close> and transform \<open>f\<close>, \<open>Map(s, f)\<close> has the same length as
  \<open>s\<close>, and its element at every index \<open>i\<close> is \<open>f(s[i])\<close>: order is preserved.
\<close>

theorem Map_length_nth:
  "len (Map s f) = len s \<and> (\<forall>i < len s. elems (Map s f) ! i = f (elems s ! i))"
  by (simp add: Map_elems len_def)

theorem Map_length_nth_witness:
  "len (Map (Slice [1, 2, 3 :: int]) (\<lambda>x. x * 2)) = len (Slice [1, 2, 3 :: int])
   \<and> (1 :: nat) < len (Slice [1, 2, 3 :: int])
   \<and> elems (Map (Slice [1, 2, 3 :: int]) (\<lambda>x. x * 2)) ! 1 = 2 * 2"
  using Map_length_nth [of "Slice [1, 2, 3 :: int]" "\<lambda>x. x * 2"]
  by (simp add: len_def)

text \<open>
  C6. Each of \<open>Map\<close>, \<open>Filter\<close>, \<open>FlatMap\<close>, \<open>FilterMap\<close>, \<open>CloneMap\<close>,
  \<open>CloneList\<close>, \<open>Distinct\<close>, \<open>Partition\<close> and \<open>MapReturnWithError\<close> (which then
  succeeds) returns an empty non-nil container, never the nil one, when its input
  container is empty or nil.
\<close>

theorem empty_input_gives_empty_container:
  "(elems source = [] \<longrightarrow>
       Map source transform = Slice []
     \<and> Filter source filterFunc = Slice []
     \<and> CloneList zero_value source = Slice []
     \<and> Distinct source = Slice []
     \<and> Partition source filterFunc = (Slice [], Slice [])
     \<and> MapReturnWithError source mappingFunc s = ((Slice [], None), s))
   \<and> (elems nested = [] \<longrightarrow> FlatMap nested = Slice [])
   \<and> (entries m = [] \<longrightarrow>
       FilterMap m filteringFunc = Some (GoMap []) \<and> CloneMap m = Some (GoMap []))"
  by (simp add: Map_def Filter_def CloneList_def make_slice_def len_def Distinct_def
      Partition_def MapReturnWithError_def FlatMap_def FilterMap_def CloneMap_def)

theorem empty_input_gives_empty_container_witness:
  "elems (NilSlice :: int slice) = []
   \<and> Map (NilSlice :: int slice) (\<lambda>x. x + 1) = Slice []
   \<and> Filter (NilSlice :: int slice) (\<lambda>x. 0 < x) = Slice []
   \<and> CloneList 0 (NilSlice :: int slice) = Slice []
   \<and> Distinct (NilSlice :: int slice) = Slice []
   \<and> Partition (NilSlice :: int slice) (\<lambda>x. 0 < x) = (Slice [], Slice [])
   \<and> MapReturnWithError (NilSlice :: int slice) (\<lambda>x n. ((x, None), Suc n)) (0 :: nat)
       = ((Slice [], None), 0)
   \<and> elems (NilSlice :: int slice slice) = []
   \<and> FlatMap (NilSlice :: int slice slice) = Slice []
   \<and> entries (NilMap :: (string, int) gomap) = []
   \<and> FilterMap (NilMap :: (string, int) gomap) (\<lambda>k v. 0 < v) = Some (GoMap [])
   \<and> CloneMap (NilMap :: (string, int) gomap) = Some (GoMap [])"
  using empty_input_gives_empty_container
          [of "NilSlice :: int slice" "\<lambda>x. x + 1" "\<lambda>x. 0 < x" 0
              "\<lambda>x n. ((x, None), Suc n)" "0 :: nat"
              "NilSlice :: int slice slice" "NilMap :: (string, int) gomap" "\<lambda>k v. 0 < v"]
  by simp

text \<open>
  C7. For every source sequence and fallible per-element action, \<open>ForEachWithError\<close>
  calls the action on the elements in order, stops at the first element whose action
  fails and returns that failure unchanged, calling the action on no later element
  (the state is the one the failing call left); when no action fails it returns no
  error.
\<close>

theorem ForEachWithError_halts_at_first_failure:
  "(elems source = pre @ item # post \<and> invoke_all action pre s = (outs, s1)
      \<and> (\<forall>out \<in> set outs. out = None) \<and> action item s1 = (Some e, s2)
    \<longrightarrow> ForEachWithError source action s = (Some e, s2))
   \<and> (invoke_all action (elems source) s = (outs, s1) \<and> (\<forall>out \<in> set outs. out = None)
    \<longrightarrow> ForEachWithError source action s = (None, s1))"
  unfolding ForEachWithError_def
  using ForEachWithError_loop_failure [of action pre s outs s1 item e s2 post]
        ForEachWithError_loop_success [of action "elems source" s outs s1]
  by simp

theorem ForEachWithError_halts_at_first_failure_witness:
  "ForEachWithError (Slice [1, 2, 3, 4, 5]) error_on_3 [] = (Some (Fundamental ''error''), [1, 2])
   \<and> ForEachWithError (Slice [1, 2, 4, 5]) error_on_3 [] = (None, [1, 2, 4, 5])"
  using ForEachWithError_halts_at_first_failure [of "Slice [1, 2, 3, 4, 5]" "[1, 2]" 3 "[4, 5]"
          error_on_3 "[]" "[None, None]" "[1, 2]" "Fundamental ''error''" "[1, 2]"]
        ForEachWithError_halts_at_first_failure [of "Slice [1, 2, 4, 5]" "[]" 0 "[]"
          error_on_3 "[]" "[None, None, None, None]" "[1, 2, 4, 5]" "Fundamental ''''" "[]"]
  by (simp add: error_on_3_def)



text \<open>
  C9. For all functions \<open>g\<close> and \<open>f\<close> of compatible types and every input \<open>x\<close>, the
  function returned by \<open>Pipe(g, f)\<close> gives the same result as the one returned by
  \<open>Compose(f, g)\<close>, and that result is \<open>f(g(x))\<close>.
\<close>

theorem Pipe_eq_Compose:
  "Pipe g f x = Compose f g x \<and> Pipe g f x = f (g x) \<and> Compose f g x = f (g x)"
  by (simp add: Pipe_def Compose_def)

text \<open>
  C10. For every slice and predicate, \<open>Count(slice, predicate)\<close> is the length of
  \<open>Filter(slice, predicate)\<close>.
\<close>

theorem Count_eq_len_Filter:
  "Count slice predicate = int (len (Filter slice predicate))"
  by (simp add: Count_def Count_loop_length Filter_elems len_def)

end
